theory Spec2Isabelle
  imports Main
begin

section \<open>The object substrate\<close>

text \<open>
  The library \<^verbatim>\<open>inheritance.js\<close> builds classes out of JavaScript functions,
  prototype objects and closures.  The embedding makes the heap explicit.  An object
  has own properties (a value and its enumerable flag, in insertion order), a
  prototype link and, when it is a function, the code it runs.  Only plain data
  properties are modelled: no accessors, no frozen objects, no \<^verbatim>\<open>__proto__\<close>
  setter; of the read-only properties, those every function object has.  The built-in methods the library itself invokes (\<^verbatim>\<open>hasOwnProperty\<close>,
  \<^verbatim>\<open>apply\<close>, \<^verbatim>\<open>toString\<close>, \<^verbatim>\<open>indexOf\<close>, \<^verbatim>\<open>Object.create\<close>) have
  their standard meaning.
\<close>

type_synonym ref = nat

datatype val = Undefined | Null | Bool bool | Num int | Str string | Obj ref

text \<open>
  Methods handed to \<^verbatim>\<open>Class.create\<close> are code of the caller.  Their bodies are
  expressions of a small strict-mode fragment: \<open>Get e k\<close> is \<^verbatim>\<open>e.k\<close>,
  \<open>Put e k x\<close> is \<^verbatim>\<open>e.k = x\<close>, \<open>Invoke e k as\<close> is the method call
  \<^verbatim>\<open>e.k(as)\<close> (so \<open>Invoke This ''super'' []\<close> is \<^verbatim>\<open>this.super()\<close>),
  \<open>Concat\<close> is \<^verbatim>\<open>+\<close> with a string operand, \<open>Seq\<close> is the comma operator and
  \<open>Throw\<close> raises.  The value of the body is what the function returns.
\<close>

datatype expr =
    Lit val
  | This
  | Arg nat
  | Get expr string
  | Put expr string expr
  | Concat expr expr
  | Invoke expr string "expr list"
  | Seq expr expr
  | Throw expr

text \<open>
  A function object runs either caller code (with the source text that
  \<^verbatim>\<open>toString\<close> reports), or one of the two closures the library creates: the
  wrapper returned by \<^verbatim>\<open>Helper.wrap\<close>, which captures \<^verbatim>\<open>fnName\<close>, \<^verbatim>\<open>fn\<close>
  and \<^verbatim>\<open>__super__\<close>, and the constructor \<^verbatim>\<open>Class\<close> of \<^verbatim>\<open>Class.create\<close>.
\<close>

datatype callable = User string expr | Wrapper string val val | ClassCtor

record obj =
  properties :: "(string \<times> val \<times> bool) list"
  proto :: "ref option"
  callable :: "callable option"

type_synonym heap = "obj list"

text \<open>
  \<open>InvalidArguments\<close> is the \<^verbatim>\<open>TypeError('Invalid arguments')\<close> of
  \<^verbatim>\<open>parseArgs\<close>; \<open>NativeTypeError\<close> is a \<^verbatim>\<open>TypeError\<close> raised by the engine
  (property access on \<^verbatim>\<open>undefined\<close>, call of a non-function, strict-mode write to a
  primitive); \<open>UserThrow\<close> is a value thrown by caller code; \<open>Unmodelled\<close> marks an
  operation outside the modelled fragment.
\<close>

datatype error = InvalidArguments | NativeTypeError | Unmodelled | UserThrow val

type_synonym 'a result = "(error + 'a) \<times> heap"

text \<open>The addresses of \<^verbatim>\<open>Object.prototype\<close> and \<^verbatim>\<open>Function.prototype\<close>.\<close>

definition object_prototype :: ref where
  "object_prototype = 0"

definition function_prototype :: ref where
  "function_prototype = 1"

definition alloc :: "heap \<Rightarrow> obj \<Rightarrow> ref \<times> heap" where
  "alloc h ob = (length h, h @ [ob])"

definition callable_of :: "heap \<Rightarrow> val \<Rightarrow> callable option" where
  "callable_of h v =
     (case v of Obj r \<Rightarrow> (if r < length h then callable (h ! r) else None) | _ \<Rightarrow> None)"

text \<open>\<^verbatim>\<open>typeof v\<close>.\<close>

definition typeof :: "heap \<Rightarrow> val \<Rightarrow> string" where
  "typeof h v =
     (case v of
        Undefined \<Rightarrow> ''undefined''
      | Null \<Rightarrow> ''object''
      | Bool b \<Rightarrow> ''boolean''
      | Num n \<Rightarrow> ''number''
      | Str s \<Rightarrow> ''string''
      | Obj r \<Rightarrow> (if callable_of h v = None then ''object'' else ''function''))"

text \<open>The truth value of \<open>v\<close> as the operand of \<^verbatim>\<open>&&\<close>.\<close>

definition truthy :: "val \<Rightarrow> bool" where
  "truthy v =
     (case v of
        Undefined \<Rightarrow> False
      | Null \<Rightarrow> False
      | Bool b \<Rightarrow> b
      | Num n \<Rightarrow> n \<noteq> 0
      | Str s \<Rightarrow> s \<noteq> []
      | Obj r \<Rightarrow> True)"

text \<open>
  Property lookup along the prototype chain.  A prototype is fixed when its object is
  created, so it lives at a smaller address; a link that does not go down ends the
  chain.
\<close>

function lookup :: "heap \<Rightarrow> ref \<Rightarrow> string \<Rightarrow> val" where
  "lookup h r k =
     (if r < length h then
        (case map_of (properties (h ! r)) k of
           Some (v, e) \<Rightarrow> v
         | None \<Rightarrow>
             (case proto (h ! r) of
                None \<Rightarrow> Undefined
              | Some p \<Rightarrow> (if p < r then lookup h p k else Undefined)))
      else Undefined)"
  by pat_completeness auto
termination
  by (relation "measure (\<lambda>(h, r, k). r)") auto

declare lookup.simps [simp del]

text \<open>\<^verbatim>\<open>v[k]\<close> as a read.\<close>

definition get_prop :: "heap \<Rightarrow> val \<Rightarrow> string \<Rightarrow> error + val" where
  "get_prop h v k =
     (case v of
        Undefined \<Rightarrow> Inl NativeTypeError
      | Null \<Rightarrow> Inl NativeTypeError
      | Obj r \<Rightarrow> (if r < length h then Inr (lookup h r k) else Inl Unmodelled)
      | _ \<Rightarrow> Inl Unmodelled)"

fun put_own :: "(string \<times> val \<times> bool) list \<Rightarrow> string \<Rightarrow> val \<Rightarrow> (string \<times> val \<times> bool) list" where
  "put_own [] k x = [(k, x, True)]"
| "put_own ((k', v, e) # ps) k x =
     (if k' = k then (k', x, e) # ps else (k', v, e) # put_own ps k x)"

text \<open>
  The built-in properties of a function object that cannot be assigned: \<^verbatim>\<open>length\<close>
  and \<^verbatim>\<open>name\<close> are read-only, \<^verbatim>\<open>caller\<close> and \<^verbatim>\<open>arguments\<close> throw on
  access.  Their values are not represented.
\<close>

definition read_only_function_properties :: "string list" where
  "read_only_function_properties = [''name'', ''length'', ''caller'', ''arguments'']"

definition assignable :: "heap \<Rightarrow> ref \<Rightarrow> string \<Rightarrow> bool" where
  "assignable h r k =
     (callable (h ! r) = None \<or> k \<notin> set read_only_function_properties)"

text \<open>
  \<^verbatim>\<open>v[k] = x\<close> in strict mode: an own data property of the object is written; the
  assignment throws on a primitive and on a read-only property.
\<close>

definition set_prop :: "heap \<Rightarrow> val \<Rightarrow> string \<Rightarrow> val \<Rightarrow> error + heap" where
  "set_prop h v k x =
     (case v of
        Obj r \<Rightarrow>
          (if r < length h then
             (if assignable h r k
              then Inr (h[r := (h ! r)\<lparr>properties := put_own (properties (h ! r)) k x\<rparr>])
              else Inl NativeTypeError)
           else Inl Unmodelled)
      | _ \<Rightarrow> Inl NativeTypeError)"

text \<open>
  \<^verbatim>\<open>a + b\<close> where one operand is a string and the other a primitive without a
  numeric reading in the model.
\<close>

fun to_string :: "val \<Rightarrow> string option" where
  "to_string Undefined = Some ''undefined''"
| "to_string Null = Some ''null''"
| "to_string (Bool b) = Some (if b then ''true'' else ''false'')"
| "to_string (Str s) = Some s"
| "to_string (Num n) = None"
| "to_string (Obj r) = None"

definition is_string :: "val \<Rightarrow> bool" where
  "is_string v = (case v of Str s \<Rightarrow> True | _ \<Rightarrow> False)"

definition js_plus :: "val \<Rightarrow> val \<Rightarrow> error + val" where
  "js_plus a b =
     (if is_string a \<or> is_string b then
        (case (to_string a, to_string b) of
           (Some s, Some t) \<Rightarrow> Inr (Str (s @ t))
         | _ \<Rightarrow> Inl Unmodelled)
      else Inl Unmodelled)"

section \<open>Helper\<close>

text \<open>\<^verbatim>\<open>isFn: function (o) { return typeof o === 'function'; }\<close>\<close>

definition isFn :: "heap \<Rightarrow> val \<Rightarrow> bool" where
  "isFn h o' = (typeof h o' = ''function'')"

section \<open>Running functions\<close>

text \<open>
  Calls are evaluated with fuel, one unit for each nested call: the evaluator of
  bodies takes the function that runs the calls a body makes, and \<open>call (Suc n)\<close>
  hands it \<open>call n\<close>.  \<open>None\<close> means the fuel ran out, \<open>Some (Inl e, h)\<close>
  that \<open>e\<close> was thrown in heap \<open>h\<close>, \<open>Some (Inr v, h)\<close> that \<open>v\<close> was returned.

  The \<open>Wrapper\<close> case is the closure of \<^verbatim>\<open>Helper.wrap\<close>:
  \<^verbatim>\<open>
  var currentSuperMethod = this.super;
  this.super = __super__[fnName];
  var result = fn.apply(this, arguments);
  this.super = currentSuperMethod;
  return result;
  \<close>
  The \<open>ClassCtor\<close> case is the constructor of \<^verbatim>\<open>Class.create\<close>:
  \<^verbatim>\<open>Helper.isFn(this.init) && this.init.apply(this, arguments);\<close>
\<close>

primrec eval :: "(val \<Rightarrow> val \<Rightarrow> val list \<Rightarrow> heap \<Rightarrow> val result option) \<Rightarrow> expr \<Rightarrow> val \<Rightarrow> val list \<Rightarrow> heap \<Rightarrow> val result option"
and eval_list :: "(val \<Rightarrow> val \<Rightarrow> val list \<Rightarrow> heap \<Rightarrow> val result option) \<Rightarrow> expr list \<Rightarrow> val \<Rightarrow> val list \<Rightarrow> heap \<Rightarrow> (val list) result option"
where
  "eval c (Lit v) this args h = Some (Inr v, h)"
| "eval c This this args h = Some (Inr this, h)"
| "eval c (Arg i) this args h =
     Some (Inr (if i < length args then args ! i else Undefined), h)"
| "eval c (Get e k) this args h =
     (case eval c e this args h of
        None \<Rightarrow> None
      | Some (Inl x, h1) \<Rightarrow> Some (Inl x, h1)
      | Some (Inr b, h1) \<Rightarrow> Some (get_prop h1 b k, h1))"
| "eval c (Put e k e') this args h =
     (case eval c e this args h of
        None \<Rightarrow> None
      | Some (Inl x, h1) \<Rightarrow> Some (Inl x, h1)
      | Some (Inr b, h1) \<Rightarrow>
     (case eval c e' this args h1 of
        None \<Rightarrow> None
      | Some (Inl x, h2) \<Rightarrow> Some (Inl x, h2)
      | Some (Inr v, h2) \<Rightarrow>
     (case set_prop h2 b k v of
        Inl x \<Rightarrow> Some (Inl x, h2)
      | Inr h3 \<Rightarrow> Some (Inr v, h3))))"
| "eval c (Concat e e') this args h =
     (case eval c e this args h of
        None \<Rightarrow> None
      | Some (Inl x, h1) \<Rightarrow> Some (Inl x, h1)
      | Some (Inr a, h1) \<Rightarrow>
     (case eval c e' this args h1 of
        None \<Rightarrow> None
      | Some (Inl x, h2) \<Rightarrow> Some (Inl x, h2)
      | Some (Inr b, h2) \<Rightarrow> Some (js_plus a b, h2)))"
| "eval c (Invoke e k es) this args h =
     (case eval c e this args h of
        None \<Rightarrow> None
      | Some (Inl x, h1) \<Rightarrow> Some (Inl x, h1)
      | Some (Inr b, h1) \<Rightarrow>
     (case get_prop h1 b k of
        Inl x \<Rightarrow> Some (Inl x, h1)
      | Inr f \<Rightarrow>
     (case eval_list c es this args h1 of
        None \<Rightarrow> None
      | Some (Inl x, h2) \<Rightarrow> Some (Inl x, h2)
      | Some (Inr vs, h2) \<Rightarrow> c f b vs h2)))"
| "eval c (Seq e e') this args h =
     (case eval c e this args h of
        None \<Rightarrow> None
      | Some (Inl x, h1) \<Rightarrow> Some (Inl x, h1)
      | Some (Inr a, h1) \<Rightarrow> eval c e' this args h1)"
| "eval c (Throw e) this args h =
     (case eval c e this args h of
        None \<Rightarrow> None
      | Some (Inl x, h1) \<Rightarrow> Some (Inl x, h1)
      | Some (Inr v, h1) \<Rightarrow> Some (Inl (UserThrow v), h1))"
| "eval_list c [] this args h = Some (Inr [], h)"
| "eval_list c (e # es) this args h =
     (case eval c e this args h of
        None \<Rightarrow> None
      | Some (Inl x, h1) \<Rightarrow> Some (Inl x, h1)
      | Some (Inr v, h1) \<Rightarrow>
     (case eval_list c es this args h1 of
        None \<Rightarrow> None
      | Some (Inl x, h2) \<Rightarrow> Some (Inl x, h2)
      | Some (Inr vs, h2) \<Rightarrow> Some (Inr (v # vs), h2)))"

primrec call :: "nat \<Rightarrow> val \<Rightarrow> val \<Rightarrow> val list \<Rightarrow> heap \<Rightarrow> val result option" where
  "call 0 f this args h = None"
| "call (Suc n) f this args h =
     (case callable_of h f of
        None \<Rightarrow> Some (Inl NativeTypeError, h)
      | Some (User src body) \<Rightarrow> eval (call n) body this args h
      | Some (Wrapper fnName fn super) \<Rightarrow>
          (case get_prop h this ''super'' of
             Inl e \<Rightarrow> Some (Inl e, h)
           | Inr currentSuperMethod \<Rightarrow>
          (case get_prop h super fnName of
             Inl e \<Rightarrow> Some (Inl e, h)
           | Inr s \<Rightarrow>
          (case set_prop h this ''super'' s of
             Inl e \<Rightarrow> Some (Inl e, h)
           | Inr h1 \<Rightarrow>
          (case call n fn this args h1 of
             None \<Rightarrow> None
           | Some (Inl e, h2) \<Rightarrow> Some (Inl e, h2)
           | Some (Inr result, h2) \<Rightarrow>
          (case set_prop h2 this ''super'' currentSuperMethod of
             Inl e \<Rightarrow> Some (Inl e, h2)
           | Inr h3 \<Rightarrow> Some (Inr result, h3))))))
      | Some ClassCtor \<Rightarrow>
          (case get_prop h this ''init'' of
             Inl e \<Rightarrow> Some (Inl e, h)
           | Inr i \<Rightarrow>
               (if isFn h i then
                  (case call n i this args h of
                     None \<Rightarrow> None
                   | Some (Inl e, h1) \<Rightarrow> Some (Inl e, h1)
                   | Some (Inr r, h1) \<Rightarrow> Some (Inr Undefined, h1))
                else Some (Inr Undefined, h))))"

section \<open>Helper, continued\<close>

text \<open>\<^verbatim>\<open>s.indexOf(t)\<close>: the first position of \<open>t\<close> in \<open>s\<close>, or \<open>-1\<close>.\<close>

fun indexOf_from :: "string \<Rightarrow> string \<Rightarrow> nat \<Rightarrow> int" where
  "indexOf_from [] t i = (if t = [] then int i else - 1)"
| "indexOf_from (c # s) t i =
     (if take (length t) (c # s) = t then int i else indexOf_from s t (Suc i))"

definition indexOf :: "string \<Rightarrow> string \<Rightarrow> int" where
  "indexOf s t = indexOf_from s t 0"

text \<open>
  \<^verbatim>\<open>fn.toString()\<close> is the source text of a function.  For the two closures of the
  library it is the text of \<^verbatim>\<open>inheritance.js\<close> itself.
\<close>

definition wrapper_source :: string where
  "wrapper_source =
     ''function () {\<newline>'' @
     ''                var currentSuperMethod = this.super;\<newline>'' @
     ''                this.super = __super__[fnName];\<newline>'' @
     ''                var result = fn.apply(this, arguments);\<newline>'' @
     ''                this.super = currentSuperMethod;\<newline>'' @
     ''                return result;\<newline>'' @
     ''            }''"

definition constructor_source :: string where
  "constructor_source =
     ''function () {\<newline>'' @
     ''                // call the 'init' function which is used as a constructor\<newline>'' @
     ''                Helper.isFn(this.init) && this.init.apply(this, arguments);\<newline>'' @
     ''            }''"

definition toString :: "heap \<Rightarrow> val \<Rightarrow> string" where
  "toString h fn =
     (case callable_of h fn of
        Some (User src body) \<Rightarrow> src
      | Some (Wrapper fnName f super) \<Rightarrow> wrapper_source
      | Some ClassCtor \<Rightarrow> constructor_source
      | None \<Rightarrow> [])"

text \<open>
  \<^verbatim>\<open>hasFnSuperCall: function (fn) {
      return this.isFn(fn) && fn.toString().indexOf('.super') !== -1; }\<close>
\<close>

definition hasFnSuperCall :: "heap \<Rightarrow> val \<Rightarrow> bool" where
  "hasFnSuperCall h fn = (isFn h fn \<and> indexOf (toString h fn) ''.super'' \<noteq> - 1)"

text \<open>
  Evaluating a function expression allocates the function object and the object in
  its \<^verbatim>\<open>prototype\<close> property; neither built-in property is enumerable.
\<close>

definition new_function :: "heap \<Rightarrow> callable \<Rightarrow> val \<times> heap" where
  "new_function h c =
     (Obj (length h),
      h @ [\<lparr>properties = [(''prototype'', Obj (Suc (length h)), False)],
             proto = Some function_prototype, callable = Some c\<rparr>,
           \<lparr>properties = [(''constructor'', Obj (length h), False)],
             proto = Some object_prototype, callable = None\<rparr>])"

text \<open>\<^verbatim>\<open>wrap: function (fnName, fn, __super__) { return function () { ... }; }\<close>\<close>

definition wrap :: "heap \<Rightarrow> string \<Rightarrow> val \<Rightarrow> val \<Rightarrow> val \<times> heap" where
  "wrap h fnName fn super = new_function h (Wrapper fnName fn super)"

text \<open>\<^verbatim>\<open>createObject: Object.create\<close>\<close>

definition createObject :: "heap \<Rightarrow> val \<Rightarrow> val result" where
  "createObject h prototype =
     (case prototype of
        Obj r \<Rightarrow>
          (Inr (Obj (length h)),
           h @ [\<lparr>properties = [], proto = Some r, callable = None\<rparr>])
      | Null \<Rightarrow>
          (Inr (Obj (length h)),
           h @ [\<lparr>properties = [], proto = None, callable = None\<rparr>])
      | _ \<Rightarrow> (Inl NativeTypeError, h))"

text \<open>
  \<^verbatim>\<open>parseArgs\<close> fills \<^verbatim>\<open>parsedArgs = {}\<close> in three successive tests of
  \<^verbatim>\<open>args.length\<close>; a field never assigned reads as \<^verbatim>\<open>undefined\<close>.
\<close>

record parsedArgs =
  parent :: val
  props :: val
  staticProps :: val

definition parseArgs :: "heap \<Rightarrow> val list \<Rightarrow> error + parsedArgs" where
  "parseArgs h args =
     (case
        (if length args = 1 then
           (if typeof h (args ! 0) = ''function'' then
              Inr \<lparr>parent = args ! 0, props = Undefined, staticProps = Undefined\<rparr>
            else if typeof h (args ! 0) = ''object'' then
              Inr \<lparr>parent = Undefined, props = args ! 0, staticProps = Undefined\<rparr>
            else Inl InvalidArguments)
         else Inr \<lparr>parent = Undefined, props = Undefined, staticProps = Undefined\<rparr>)
      of
        Inl e \<Rightarrow> Inl e
      | Inr parsedArgs1 \<Rightarrow>
     (case
        (if length args = 2 then
           (if typeof h (args ! 0) = ''function'' \<and> typeof h (args ! 1) = ''object'' then
              Inr (parsedArgs1\<lparr>parent := args ! 0, props := args ! 1\<rparr>)
            else if typeof h (args ! 0) = ''object'' \<and> typeof h (args ! 1) = ''object'' then
              Inr (parsedArgs1\<lparr>props := args ! 0, staticProps := args ! 1\<rparr>)
            else Inl InvalidArguments)
         else Inr parsedArgs1)
      of
        Inl e \<Rightarrow> Inl e
      | Inr parsedArgs2 \<Rightarrow>
     (if length args \<ge> 3 then
        (if typeof h (args ! 0) \<noteq> ''function'' \<or> typeof h (args ! 1) \<noteq> ''object''
            \<or> typeof h (args ! 2) \<noteq> ''object''
         then Inl InvalidArguments
         else Inr (parsedArgs2\<lparr>parent := args ! 0, props := args ! 1,
                                staticProps := args ! 2\<rparr>))
      else Inr parsedArgs2)))"

text \<open>
  \<^verbatim>\<open>inherit: function (parent, child) {
      child.prototype = this.createObject(parent.prototype);
      child.prototype.constructor = child;
      child.__super__ = parent.prototype;
      return child; }\<close>
\<close>

definition inherit :: "heap \<Rightarrow> val \<Rightarrow> val \<Rightarrow> val result" where
  "inherit h parent' child =
     (case get_prop h parent' ''prototype'' of
        Inl e \<Rightarrow> (Inl e, h)
      | Inr pp \<Rightarrow>
     (case createObject h pp of
        (Inl e, h1) \<Rightarrow> (Inl e, h1)
      | (Inr ob, h1) \<Rightarrow>
     (case set_prop h1 child ''prototype'' ob of
        Inl e \<Rightarrow> (Inl e, h1)
      | Inr h2 \<Rightarrow>
     (case get_prop h2 child ''prototype'' of
        Inl e \<Rightarrow> (Inl e, h2)
      | Inr cp \<Rightarrow>
     (case set_prop h2 cp ''constructor'' child of
        Inl e \<Rightarrow> (Inl e, h2)
      | Inr h3 \<Rightarrow>
     (case get_prop h3 parent' ''prototype'' of
        Inl e \<Rightarrow> (Inl e, h3)
      | Inr pp' \<Rightarrow>
     (case set_prop h3 child ''__super__'' pp' of
        Inl e \<Rightarrow> (Inl e, h3)
      | Inr h4 \<Rightarrow> (Inr child, h4))))))))"

text \<open>
  The names that \<^verbatim>\<open>for (var name in props)\<close> visits and
  \<^verbatim>\<open>props.hasOwnProperty(name)\<close> lets through: the own enumerable properties,
  each once.  \<^verbatim>\<open>Class.create\<close> passes an object here.
\<close>

definition own_enumerable_keys :: "heap \<Rightarrow> val \<Rightarrow> string list" where
  "own_enumerable_keys h v =
     (case v of
        Obj r \<Rightarrow>
          (if r < length h
           then remdups (map fst (filter (\<lambda>(k, x, e). e) (properties (h ! r))))
           else [])
      | _ \<Rightarrow> [])"

text \<open>
  The test of \<^verbatim>\<open>extend\<close>, with the short circuit of \<^verbatim>\<open>&&\<close>:
  \<^verbatim>\<open>__super__ && this.hasFnSuperCall(props[name]) && this.isFn(obj[name])\<close>
\<close>

definition extend_test :: "heap \<Rightarrow> val \<Rightarrow> val \<Rightarrow> val \<Rightarrow> string \<Rightarrow> error + bool" where
  "extend_test h obj source super name =
     (if \<not> truthy super then Inr False
      else
        (case get_prop h source name of
           Inl e \<Rightarrow> Inl e
         | Inr fn \<Rightarrow>
             (if \<not> hasFnSuperCall h fn then Inr False
              else
                (case get_prop h obj name of
                   Inl e \<Rightarrow> Inl e
                 | Inr t \<Rightarrow> Inr (isFn h t)))))"

text \<open>
  \<open>extend_member\<close> is the body of the loop of \<^verbatim>\<open>extend\<close> for one name,
  \<open>extend_loop\<close> the loop over the names, \<open>extend\<close> the function:
  \<^verbatim>\<open>extend: function (obj, props, __super__) {
      for (var name in props) {
          if (props.hasOwnProperty(name)) {
              if (__super__ && this.hasFnSuperCall(props[name]) && this.isFn(obj[name])) {
                  obj[name] = this.wrap(name, props[name], __super__);
              } else {
                  obj[name] = props[name];
              }
          }
      }
      return obj; }\<close>
\<close>

definition extend_member :: "heap \<Rightarrow> val \<Rightarrow> val \<Rightarrow> val \<Rightarrow> string \<Rightarrow> unit result" where
  "extend_member h obj source super name =
     (case extend_test h obj source super name of
        Inl e \<Rightarrow> (Inl e, h)
      | Inr True \<Rightarrow>
          (case get_prop h source name of
             Inl e \<Rightarrow> (Inl e, h)
           | Inr fn \<Rightarrow>
               (case wrap h name fn super of
                  (w, h1) \<Rightarrow>
                    (case set_prop h1 obj name w of
                       Inl e \<Rightarrow> (Inl e, h1)
                     | Inr h2 \<Rightarrow> (Inr (), h2))))
      | Inr False \<Rightarrow>
          (case get_prop h source name of
             Inl e \<Rightarrow> (Inl e, h)
           | Inr v \<Rightarrow>
               (case set_prop h obj name v of
                  Inl e \<Rightarrow> (Inl e, h)
                | Inr h1 \<Rightarrow> (Inr (), h1))))"

fun extend_loop :: "heap \<Rightarrow> val \<Rightarrow> val \<Rightarrow> val \<Rightarrow> string list \<Rightarrow> unit result" where
  "extend_loop h obj source super [] = (Inr (), h)"
| "extend_loop h obj source super (name # names) =
     (case extend_member h obj source super name of
        (Inl e, h1) \<Rightarrow> (Inl e, h1)
      | (Inr u, h1) \<Rightarrow> extend_loop h1 obj source super names)"

definition extend :: "heap \<Rightarrow> val \<Rightarrow> val \<Rightarrow> val \<Rightarrow> val result" where
  "extend h obj source super =
     (case extend_loop h obj source super (own_enumerable_keys h source) of
        (Inl e, h1) \<Rightarrow> (Inl e, h1)
      | (Inr u, h1) \<Rightarrow> (Inr obj, h1))"

section \<open>Class.create\<close>

text \<open>The default constructor body, \<^verbatim>\<open>function () {}\<close>.\<close>

definition empty_init :: callable where
  "empty_init = User ''function () {}'' (Lit Undefined)"

text \<open>
  \<^verbatim>\<open>create: function () {
      var args = Helper.parseArgs(arguments),
          parent = args.parent, props = args.props, staticProps = args.staticProps;
      var Class = function () { ... }
      Class.prototype.init = function () {}
      parent && Helper.inherit(parent, Class);
      props && Helper.extend(Class.prototype, props, Class.__super__);
      staticProps && Helper.extend(Class, staticProps);
      return Class; }\<close>
\<close>

definition create :: "heap \<Rightarrow> val list \<Rightarrow> val result" where
  "create h arguments =
     (case parseArgs h arguments of
        Inl e \<Rightarrow> (Inl e, h)
      | Inr args \<Rightarrow>
     (case new_function h ClassCtor of
        (Class, h1) \<Rightarrow>
     (case get_prop h1 Class ''prototype'' of
        Inl e \<Rightarrow> (Inl e, h1)
      | Inr pr \<Rightarrow>
     (case new_function h1 empty_init of
        (init, h2) \<Rightarrow>
     (case set_prop h2 pr ''init'' init of
        Inl e \<Rightarrow> (Inl e, h2)
      | Inr h3 \<Rightarrow>
     (case (if truthy (parent args) then inherit h3 (parent args) Class
            else (Inr Undefined, h3)) of
        (Inl e, h4) \<Rightarrow> (Inl e, h4)
      | (Inr u, h4) \<Rightarrow>
     (case (if truthy (props args) then
              (case get_prop h4 Class ''prototype'' of
                 Inl e \<Rightarrow> (Inl e, h4)
               | Inr table \<Rightarrow>
                   (case get_prop h4 Class ''__super__'' of
                      Inl e \<Rightarrow> (Inl e, h4)
                    | Inr super \<Rightarrow> extend h4 table (props args) super))
            else (Inr Undefined, h4)) of
        (Inl e, h5) \<Rightarrow> (Inl e, h5)
      | (Inr u, h5) \<Rightarrow>
     (case (if truthy (staticProps args)
            then extend h5 Class (staticProps args) Undefined
            else (Inr Undefined, h5)) of
        (Inl e, h6) \<Rightarrow> (Inl e, h6)
      | (Inr u, h6) \<Rightarrow> (Inr Class, h6)))))))))"

text \<open>
  \<^verbatim>\<open>new F(args)\<close>: the instance delegates to the object in \<^verbatim>\<open>F.prototype\<close>, the
  function runs with the instance as receiver, and the instance is the result unless
  the function returns an object.
\<close>

definition construct :: "nat \<Rightarrow> heap \<Rightarrow> val \<Rightarrow> val list \<Rightarrow> val result option" where
  "construct n h F args =
     (if \<not> isFn h F then Some (Inl NativeTypeError, h)
      else
        (case get_prop h F ''prototype'' of
           Inl e \<Rightarrow> Some (Inl e, h)
         | Inr p \<Rightarrow>
             (case alloc h \<lparr>properties = [],
                             proto = Some (case p of Obj r \<Rightarrow> r | _ \<Rightarrow> object_prototype),
                             callable = None\<rparr> of
                (inst, h1) \<Rightarrow>
                  (case call n F (Obj inst) args h1 of
                     None \<Rightarrow> None
                   | Some (Inl e, h2) \<Rightarrow> Some (Inl e, h2)
                   | Some (Inr v, h2) \<Rightarrow>
                       Some (Inr (case v of Obj r \<Rightarrow> v | _ \<Rightarrow> Obj inst), h2)))))"

section \<open>Scenarios\<close>

text \<open>
  The heap before any class exists: \<^verbatim>\<open>Object.prototype\<close> and
  \<^verbatim>\<open>Function.prototype\<close>, with none of their built-in properties.
\<close>

definition base_heap :: heap where
  "base_heap =
     [\<lparr>properties = [], proto = None, callable = None\<rparr>,
      \<lparr>properties = [], proto = Some object_prototype, callable = None\<rparr>]"

text \<open>An object literal \<^verbatim>\<open>{k1: v1, ...}\<close>.\<close>

definition literal :: "heap \<Rightarrow> (string \<times> val) list \<Rightarrow> val \<times> heap" where
  "literal h kvs =
     (Obj (length h),
      h @ [\<lparr>properties = map (\<lambda>(k, v). (k, v, True)) kvs,
             proto = Some object_prototype, callable = None\<rparr>])"

text \<open>The method call \<^verbatim>\<open>receiver.name(args)\<close> made from outside any method.\<close>

definition invoke :: "nat \<Rightarrow> heap \<Rightarrow> val \<Rightarrow> string \<Rightarrow> val list \<Rightarrow> val result option" where
  "invoke n h receiver name args =
     (case get_prop h receiver name of
        Inl e \<Rightarrow> Some (Inl e, h)
      | Inr f \<Rightarrow> call n f receiver args h)"

text \<open>
  The two-level chain:
  \<^verbatim>\<open>
  var A = Class.create({greet: function () { return "A"; }});
  var B = Class.create(A, {greet: function () { return "B:" + this.super(); }});
  new B().greet()
  \<close>
\<close>

definition greet_A :: callable where
  \<open>greet_A = User ''function () { return "A"; }'' (Lit (Str ''A''))\<close>

definition greet_B :: callable where
  \<open>greet_B = User ''function () { return "B:" + this.super(); }''
     (Concat (Lit (Str ''B:'')) (Invoke This ''super'' []))\<close>

definition two_level :: "nat \<Rightarrow> val result option" where
  "two_level n =
     (case new_function base_heap greet_A of (fA, h1) \<Rightarrow>
     (case literal h1 [(''greet'', fA)] of (pA, h2) \<Rightarrow>
     (case create h2 [pA] of
        (Inl e, h3) \<Rightarrow> Some (Inl e, h3)
      | (Inr A, h3) \<Rightarrow>
     (case new_function h3 greet_B of (fB, h4) \<Rightarrow>
     (case literal h4 [(''greet'', fB)] of (pB, h5) \<Rightarrow>
     (case create h5 [A, pB] of
        (Inl e, h6) \<Rightarrow> Some (Inl e, h6)
      | (Inr B, h6) \<Rightarrow>
     (case construct n h6 B [] of
        None \<Rightarrow> None
      | Some (Inl e, h7) \<Rightarrow> Some (Inl e, h7)
      | Some (Inr b, h7) \<Rightarrow> invoke n h7 b ''greet'' [])))))))"

text \<open>
  A method that throws after calling its super reference:
  \<^verbatim>\<open>
  var A = Class.create({greet: function () { return "A"; }});
  var B = Class.create(A, {greet: function () { this.super(); throw "boom"; }});
  var b = new B();
  \<close>
  \<open>throwing_heap\<close> is the heap once \<open>b\<close> exists: \<open>b\<close> is \<open>Obj 19\<close>, the wrapper
  installed as \<open>B.prototype.greet\<close> is \<open>Obj 17\<close>, \<open>A.prototype\<close> is \<open>Obj 6\<close> and
  the \<open>greet\<close> of \<open>A\<close> is \<open>Obj 2\<close>.
\<close>

definition greet_throwing :: callable where
  \<open>greet_throwing = User ''function () { this.super(); throw "boom"; }''
     (Seq (Invoke This ''super'' []) (Throw (Lit (Str ''boom''))))\<close>

definition throwing_setup :: "val result option" where
  "throwing_setup =
     (case new_function base_heap greet_A of (fA, h1) \<Rightarrow>
     (case literal h1 [(''greet'', fA)] of (pA, h2) \<Rightarrow>
     (case create h2 [pA] of
        (Inl e, h3) \<Rightarrow> Some (Inl e, h3)
      | (Inr A, h3) \<Rightarrow>
     (case new_function h3 greet_throwing of (fB, h4) \<Rightarrow>
     (case literal h4 [(''greet'', fB)] of (pB, h5) \<Rightarrow>
     (case create h5 [A, pB] of
        (Inl e, h6) \<Rightarrow> Some (Inl e, h6)
      | (Inr B, h6) \<Rightarrow> construct 2 h6 B []))))))"

definition throwing_heap :: heap where
  "throwing_heap = (case throwing_setup of Some (r, h) \<Rightarrow> h | None \<Rightarrow> [])"

text \<open>
  Two methods that override and re-enter each other:
  \<^verbatim>\<open>
  var A = Class.create({m: function () { return "Am>" + this.n(); },
                        n: function () { return "An"; }});
  var B = Class.create(A, {m: function () { return "Bm:" + this.super() + "/" + this.super(); },
                           n: function () { return "Bn:" + this.super(); }});
  var b = new B();
  \<close>
  \<open>reentrant_heap\<close> is the heap once \<open>b\<close> exists: \<open>b\<close> is \<open>Obj 25\<close>, the wrappers
  of \<open>m\<close> and \<open>n\<close> are \<open>Obj 21\<close> and \<open>Obj 23\<close>, \<open>A.prototype\<close> is \<open>Obj 8\<close> and
  the \<open>m\<close> of \<open>A\<close> is \<open>Obj 2\<close>.  \<open>reentrant_frame\<close> is the heap inside the frame of
  the wrapper of \<open>m\<close>, after it has bound \<^verbatim>\<open>this.super\<close> to the \<open>m\<close> of \<open>A\<close>.
\<close>

definition m_A :: callable where
  \<open>m_A = User ''function () { return "Am>" + this.n(); }''
     (Concat (Lit (Str ''Am>'')) (Invoke This ''n'' []))\<close>

definition n_A :: callable where
  \<open>n_A = User ''function () { return "An"; }'' (Lit (Str ''An''))\<close>

definition m_B :: callable where
  \<open>m_B = User ''function () { return "Bm:" + this.super() + "/" + this.super(); }''
     (Concat (Concat (Concat (Lit (Str ''Bm:'')) (Invoke This ''super'' [])) (Lit (Str ''/'')))
        (Invoke This ''super'' []))\<close>

definition n_B :: callable where
  \<open>n_B = User ''function () { return "Bn:" + this.super(); }''
     (Concat (Lit (Str ''Bn:'')) (Invoke This ''super'' []))\<close>

definition reentrant_setup :: "val result option" where
  "reentrant_setup =
     (case new_function base_heap m_A of (mA, h1) \<Rightarrow>
     (case new_function h1 n_A of (nA, h2) \<Rightarrow>
     (case literal h2 [(''m'', mA), (''n'', nA)] of (pA, h3) \<Rightarrow>
     (case create h3 [pA] of
        (Inl e, h4) \<Rightarrow> Some (Inl e, h4)
      | (Inr A, h4) \<Rightarrow>
     (case new_function h4 m_B of (mB, h5) \<Rightarrow>
     (case new_function h5 n_B of (nB, h6) \<Rightarrow>
     (case literal h6 [(''m'', mB), (''n'', nB)] of (pB, h7) \<Rightarrow>
     (case create h7 [A, pB] of
        (Inl e, h8) \<Rightarrow> Some (Inl e, h8)
      | (Inr B, h8) \<Rightarrow> construct 2 h8 B []))))))))"

definition reentrant_heap :: heap where
  "reentrant_heap = (case reentrant_setup of Some (r, h) \<Rightarrow> h | None \<Rightarrow> [])"

definition reentrant_frame :: heap where
  "reentrant_frame =
     (case set_prop reentrant_heap (Obj 25) ''super'' (Obj 2) of Inr h \<Rightarrow> h | Inl e \<Rightarrow> [])"




text \<open>
  The four objects of a class without members: the constructor \<open>Obj n\<close>, its
  prototype object with the default \<open>init\<close>, and the default \<open>init\<close> with its own
  prototype object.
\<close>

definition memberless_class :: "nat \<Rightarrow> obj list" where
  "memberless_class n =
     [\<lparr>properties = [(''prototype'', Obj (Suc n), False)],
        proto = Some function_prototype, callable = Some ClassCtor\<rparr>,
      \<lparr>properties = [(''constructor'', Obj n, False), (''init'', Obj (Suc (Suc n)), True)],
        proto = Some object_prototype, callable = None\<rparr>,
      \<lparr>properties = [(''prototype'', Obj (Suc (Suc (Suc n))), False)],
        proto = Some function_prototype, callable = Some empty_init\<rparr>,
      \<lparr>properties = [(''constructor'', Obj (Suc (Suc n)), False)],
        proto = Some object_prototype, callable = None\<rparr>]"

text \<open>An array \<^verbatim>\<open>[1, 2]\<close> at \<open>Obj 2\<close>.\<close>

definition array_heap :: heap where
  "array_heap = snd (literal base_heap [(''0'', Num 1), (''1'', Num 2)])"

text \<open>
  A root class at \<open>Obj 2\<close>, with its prototype object at \<open>Obj 3\<close>, and a fresh
  constructor at \<open>Obj 6\<close> that is not linked yet.
\<close>

definition linking_heap :: heap where
  "linking_heap =
     (case create base_heap [] of
        (r, h1) \<Rightarrow> snd (new_function h1 ClassCtor))"















text \<open>
  \<open>same_but_super h h'\<close>: the two heaps hold the same objects, with the same
  prototypes, code and own properties, except for own properties named
  \<^verbatim>\<open>super\<close>.
\<close>

definition same_but_super :: "heap \<Rightarrow> heap \<Rightarrow> bool" where
  "same_but_super h h' =
     (length h' = length h \<and>
      (\<forall>r<length h.
         proto (h' ! r) = proto (h ! r) \<and> callable (h' ! r) = callable (h ! r) \<and>
         (\<forall>k. k \<noteq> ''super'' \<longrightarrow>
            map_of (properties (h' ! r)) k = map_of (properties (h ! r)) k)))"









text \<open>
  The heap before \<^verbatim>\<open>Class.create(A, {}, {name: "B"})\<close>: as \<open>statics_heap\<close>, with
  the static members \<open>Obj 12\<close> holding a string under \<^verbatim>\<open>name\<close>.
\<close>

definition named_statics_heap :: heap where
  "named_statics_heap =
     (case new_function base_heap greet_A of (fA, h1) \<Rightarrow>
     (case literal h1 [(''greet'', fA)] of (pA, h2) \<Rightarrow>
     (case create h2 [pA] of (A, h3) \<Rightarrow>
     (case new_function h3 greet_B of (fB, h4) \<Rightarrow>
     (case literal h4 [] of (pB, h5) \<Rightarrow>
        snd (literal h5 [(''name'', Str ''B'')]))))))"

section \<open>Properties\<close>

text \<open>
  C2.  Two-level super dispatch: class \<open>A\<close> defines \<open>greet\<close> returning \<open>"A"\<close>,
  class \<open>B\<close> with parent \<open>A\<close> defines \<open>greet\<close> returning \<open>"B:"\<close> followed by the
  result of its super reference; \<open>greet\<close> on an instance of \<open>B\<close> returns \<open>"B:A"\<close>.
\<close>

theorem two_level_super_dispatch:
  "map_option fst (two_level 3) = Some (Inr (Str ''B:A''))"
  by code_simp

subsection \<open>Reading and writing properties\<close>

lemma map_of_put_own:
  "map_of (put_own ps k x) k' =
     (if k' = k then Some (x, (case map_of ps k of Some (v, e) \<Rightarrow> e | None \<Rightarrow> True))
      else map_of ps k')"
  by (induction ps k x rule: put_own.induct) auto

lemma lookup_own:
  "r < length h \<Longrightarrow> map_of (properties (h ! r)) k = Some (v, e) \<Longrightarrow> lookup h r k = v"
  by (subst lookup.simps) simp

lemma set_prop_Obj:
  "r < length h \<Longrightarrow> assignable h r k \<Longrightarrow>
   set_prop h (Obj r) k x = Inr (h[r := (h ! r)\<lparr>properties := put_own (properties (h ! r)) k x\<rparr>])"
  by (simp add: set_prop_def)

lemma assignable_library_names [simp]:
  "assignable h r ''super''" "assignable h r ''prototype''" "assignable h r ''__super__''"
  "assignable h r ''init''" "assignable h r ''constructor''"
  by (simp_all add: assignable_def read_only_function_properties_def)

lemma assignable_cong:
  "callable (h' ! r) = callable (h ! r) \<Longrightarrow> assignable h' r k = assignable h r k"
  by (simp add: assignable_def)



lemma set_prop_length: "set_prop h v k x = Inr h1 \<Longrightarrow> length h1 = length h"
  by (auto simp: set_prop_def split: val.splits if_splits)

lemma set_prop_valid: "set_prop h v k x = Inr h1 \<Longrightarrow> \<exists>r. v = Obj r \<and> r < length h"
  by (auto simp: set_prop_def split: val.splits if_splits)

lemma get_after_set: "set_prop h v k x = Inr h1 \<Longrightarrow> get_prop h1 v k = Inr x"
  by (auto simp: set_prop_def get_prop_def map_of_put_own lookup_own split: val.splits if_splits)

lemma get_prop_Obj: "r < length h \<Longrightarrow> get_prop h (Obj r) k = Inr (lookup h r k)"
  by (simp add: get_prop_def)

lemma eval_length_aux:
  assumes c: "\<And>f this args h res h'. c f this args h = Some (res, h') \<Longrightarrow> length h' = length h"
  shows "(\<forall>this args h res h'. eval c e this args h = Some (res, h') \<longrightarrow> length h' = length h) \<and>
         (\<forall>this args h res h'. eval_list c es this args h = Some (res, h') \<longrightarrow> length h' = length h)"
  by (rule eval_eval_list.induct)
     (auto split: option.splits sum.splits prod.splits dest!: c set_prop_length)

lemma eval_length:
  assumes "\<And>f this args h res h'. c f this args h = Some (res, h') \<Longrightarrow> length h' = length h"
    and "eval c e this args h = Some (res, h')"
  shows "length h' = length h"
  using eval_length_aux[of c e "[]"] assms by blast

lemma call_length: "call n f this args h = Some (res, h') \<Longrightarrow> length h' = length h"
proof (induction n arbitrary: f this args h res h')
  case 0
  then show ?case by simp
next
  case (Suc n)
  have ev: "\<And>e this args h res h'. eval (call n) e this args h = Some (res, h') \<Longrightarrow> length h' = length h"
    using eval_length[of "call n"] Suc.IH by blast
  from Suc.prems show ?case
    by (auto split: option.splits callable.splits sum.splits prod.splits if_splits
             dest!: ev Suc.IH set_prop_length)
qed

subsection \<open>The wrapper\<close>

text \<open>
  C1 (as amended).  A wrapped invocation on an instance runs the original callable
  in the heap where the instance's super slot holds the parent table's entry for the
  member name.  When the original callable returns, the slot is restored to the value
  it had before the call.  When the original callable throws, the wrapper throws the
  same error and leaves the heap as the callable left it: the slot is not restored.
\<close>

theorem wrapper_binds_and_restores:
  assumes "callable_of h w = Some (Wrapper fnName fn super)"
    and "r < length h"
    and "get_prop h super fnName = Inr s"
  shows "\<exists>h1. set_prop h (Obj r) ''super'' s = Inr h1 \<and> get_prop h1 (Obj r) ''super'' = Inr s \<and>
     (case call n fn (Obj r) args h1 of
        None \<Rightarrow> call (Suc n) w (Obj r) args h = None
      | Some (Inl e, h2) \<Rightarrow> call (Suc n) w (Obj r) args h = Some (Inl e, h2)
      | Some (Inr v, h2) \<Rightarrow>
          (\<exists>h3. call (Suc n) w (Obj r) args h = Some (Inr v, h3) \<and>
                get_prop h3 (Obj r) ''super'' = get_prop h (Obj r) ''super''))"
proof -
  let ?h1 = "h[r := (h ! r)\<lparr>properties := put_own (properties (h ! r)) ''super'' s\<rparr>]"
  have s1: "set_prop h (Obj r) ''super'' s = Inr ?h1"
    using assms(2) by (simp add: set_prop_Obj)
  have g1: "get_prop h1 (Obj r) ''super'' = Inr s" if "h1 = ?h1" for h1
    using s1 that by (simp add: get_after_set)
  have cur: "get_prop h (Obj r) ''super'' = Inr (lookup h r ''super'')"
    using assms(2) by (rule get_prop_Obj)
  have body: "case call n fn (Obj r) args ?h1 of
        None \<Rightarrow> call (Suc n) w (Obj r) args h = None
      | Some (Inl e, h2) \<Rightarrow> call (Suc n) w (Obj r) args h = Some (Inl e, h2)
      | Some (Inr v, h2) \<Rightarrow>
          (\<exists>h3. call (Suc n) w (Obj r) args h = Some (Inr v, h3) \<and>
                get_prop h3 (Obj r) ''super'' = get_prop h (Obj r) ''super'')"
  proof (cases "call n fn (Obj r) args ?h1")
    case None
    then show ?thesis using assms(1,3) cur s1 by simp
  next
    case (Some p)
    obtain res h2 where p: "p = (res, h2)" by (cases p)
    show ?thesis
    proof (cases res)
      case (Inl e)
      then show ?thesis using Some p assms(1,3) cur s1 by simp
    next
      case (Inr v)
      have "length h2 = length h"
        using call_length[of n fn "Obj r" args ?h1 res h2] Some p by simp
      then have "r < length h2" using assms(2) by simp
      then obtain h3 where s3: "set_prop h2 (Obj r) ''super'' (lookup h r ''super'') = Inr h3"
        using set_prop_Obj[OF _ assignable_library_names(1)] by blast
      then have "get_prop h3 (Obj r) ''super'' = Inr (lookup h r ''super'')"
        by (rule get_after_set)
      then show ?thesis using Some p Inr assms(1,3) cur s1 s3 by simp
    qed
  qed
  show ?thesis using s1 g1 body by blast
qed

text \<open>The hypotheses of C1 hold for the wrapper, the instance and the parent table of \<open>throwing_heap\<close>.\<close>

theorem wrapper_binds_and_restores_witness:
  "callable_of throwing_heap (Obj 17) = Some (Wrapper ''greet'' (Obj 9) (Obj 6)) \<and>
   19 < length throwing_heap \<and>
   get_prop throwing_heap (Obj 6) ''greet'' = Inr (Obj 2) \<and>
   (\<exists>h1. set_prop throwing_heap (Obj 19) ''super'' (Obj 2) = Inr h1 \<and>
      get_prop h1 (Obj 19) ''super'' = Inr (Obj 2) \<and>
     (case call 2 (Obj 9) (Obj 19) [] h1 of
        None \<Rightarrow> call (Suc 2) (Obj 17) (Obj 19) [] throwing_heap = None
      | Some (Inl e, h2) \<Rightarrow> call (Suc 2) (Obj 17) (Obj 19) [] throwing_heap = Some (Inl e, h2)
      | Some (Inr v, h2) \<Rightarrow>
          (\<exists>h3. call (Suc 2) (Obj 17) (Obj 19) [] throwing_heap = Some (Inr v, h3) \<and>
                get_prop h3 (Obj 19) ''super'' = get_prop throwing_heap (Obj 19) ''super'')))"
proof -
  have a: "callable_of throwing_heap (Obj 17) = Some (Wrapper ''greet'' (Obj 9) (Obj 6))"
    by code_simp
  have b: "19 < length throwing_heap" by code_simp
  have c: "get_prop throwing_heap (Obj 6) ''greet'' = Inr (Obj 2)" by code_simp
  show ?thesis using a b c wrapper_binds_and_restores[OF a b c, of 2 "[]"] by simp
qed

text \<open>
  C1 as stated fails.  The wrapper \<open>Obj 17\<close> is invoked on the instance \<open>Obj 19\<close>,
  whose super slot reads \<^verbatim>\<open>undefined\<close>; the original callable throws, and in the
  heap the call leaves behind the slot still holds the \<open>greet\<close> of \<open>A\<close>.
\<close>

theorem wrapper_skips_restore_on_throw:
  "callable_of throwing_heap (Obj 17) = Some (Wrapper ''greet'' (Obj 9) (Obj 6)) \<and>
   get_prop throwing_heap (Obj 19) ''greet'' = Inr (Obj 17) \<and>
   get_prop throwing_heap (Obj 19) ''super'' = Inr Undefined \<and>
   (case call 3 (Obj 17) (Obj 19) [] throwing_heap of
      Some (Inl e, h') \<Rightarrow> e = UserThrow (Str ''boom'') \<and> get_prop h' (Obj 19) ''super'' = Inr (Obj 2)
    | _ \<Rightarrow> False)"
  by code_simp

text \<open>
  C4.  Save and restore nest in last-in-first-out order.  Let \<open>h\<close> be the heap in
  which a wrapped method is entered on an instance, for example from inside the
  frame of another wrapped method on the same instance that has bound the super slot.
  When the inner wrapped call returns normally, the instance's super slot reads what
  it read in \<open>h\<close>: the outer frame observes its own binding again.
\<close>

theorem nested_restore:
  assumes "callable_of h w = Some (Wrapper name fn super)"
    and "call n w (Obj r) args h = Some (Inr v, h')"
  shows "get_prop h' (Obj r) ''super'' = get_prop h (Obj r) ''super''"
proof (cases n)
  case 0
  with assms show ?thesis by simp
next
  case (Suc m)
  with assms show ?thesis
    by (auto split: sum.splits option.splits prod.splits dest: get_after_set)
qed

text \<open>
  In \<open>reentrant_frame\<close> the wrapper of \<open>m\<close> has bound the slot of \<open>b\<close> to the \<open>m\<close>
  of \<open>A\<close>; the wrapper of \<open>n\<close> is then entered on \<open>b\<close>, returns \<open>"Bn:An"\<close>, and the
  slot holds the \<open>m\<close> of \<open>A\<close> again.
\<close>

theorem nested_restore_witness:
  "callable_of reentrant_frame (Obj 23) = Some (Wrapper ''n'' (Obj 13) (Obj 8)) \<and>
   call 3 (Obj 23) (Obj 25) [] reentrant_frame =
     Some (Inr (Str ''Bn:An''), snd (the (call 3 (Obj 23) (Obj 25) [] reentrant_frame))) \<and>
   get_prop (snd (the (call 3 (Obj 23) (Obj 25) [] reentrant_frame))) (Obj 25) ''super'' = Inr (Obj 2)"
proof -
  have a: "callable_of reentrant_frame (Obj 23) = Some (Wrapper ''n'' (Obj 13) (Obj 8))"
    by code_simp
  have b: "call 3 (Obj 23) (Obj 25) [] reentrant_frame =
     Some (Inr (Str ''Bn:An''), snd (the (call 3 (Obj 23) (Obj 25) [] reentrant_frame)))"
    by code_simp
  have c: "get_prop reentrant_frame (Obj 25) ''super'' = Inr (Obj 2)" by code_simp
  show ?thesis using a b c nested_restore[OF a b] by simp
qed

text \<open>
  The whole trace of the scenario: the second use of the super reference in the
  frame of \<open>m\<close> resolves as the first did.
\<close>

lemma reentrant_trace:
  "map_option fst (invoke 6 reentrant_heap (Obj 25) ''m'' []) = Some (Inr (Str ''Bm:Am>Bn:An/Am>Bn:An''))"
  by code_simp

subsection \<open>Prototype chains and heap frames\<close>

lemma nth_append_Suc [simp]: "(h @ x # y # ys) ! Suc (length h) = y"
  by (simp add: nth_append)

lemma update_append_Suc [simp]: "(h @ x # y # ys)[Suc (length h) := z] = h @ x # z # ys"
  by (simp add: list_update_append)

lemma lookup_unfold:
  "r < length h \<Longrightarrow>
   lookup h r k =
     (case map_of (properties (h ! r)) k of
        Some (v, e) \<Rightarrow> v
      | None \<Rightarrow>
          (case proto (h ! r) of
             None \<Rightarrow> Undefined
           | Some p \<Rightarrow> (if p < r then lookup h p k else Undefined)))"
  by (subst lookup.simps) simp

lemma lookup_proto:
  "r < length h \<Longrightarrow> map_of (properties (h ! r)) k = None \<Longrightarrow> proto (h ! r) = Some p \<Longrightarrow> p < r \<Longrightarrow>
   lookup h r k = lookup h p k"
  by (subst lookup.simps) simp

lemma lookup_below:
  "r < length h \<Longrightarrow> r < length h' \<Longrightarrow> (\<forall>q\<le>r. h' ! q = h ! q) \<Longrightarrow> lookup h' r k = lookup h r k"
proof (induction r rule: less_induct)
  case (less r)
  have same: "h' ! r = h ! r" using less.prems(3) by simp
  have rec: "lookup h' p k = lookup h p k" if "p < r" for p
    using less.IH[OF that] less.prems that by simp
  show ?case
    using less.prems(1,2) same rec
    by (subst lookup.simps, subst (2) lookup.simps) (auto split: option.splits)
qed


lemma lookup_update_above:
  "r < c \<Longrightarrow> lookup (h[c := ob]) r k = lookup h r k"
proof (cases "r < length h")
  case True
  assume "r < c"
  then show ?thesis using True by (intro lookup_below) simp_all
next
  case False
  then show ?thesis by (subst lookup.simps, subst (2) lookup.simps) simp
qed

subsection \<open>Argument classification\<close>

lemma get_prop_error: "get_prop h v k \<noteq> Inl InvalidArguments"
  by (auto simp: get_prop_def split: val.splits if_splits)

lemma set_prop_error: "set_prop h v k x \<noteq> Inl InvalidArguments"
  by (auto simp: set_prop_def split: val.splits if_splits)

lemma createObject_error: "createObject h v \<noteq> (Inl InvalidArguments, h')"
  by (auto simp: createObject_def split: val.splits)

lemma inherit_error: "inherit h p c \<noteq> (Inl InvalidArguments, h')"
  unfolding inherit_def
  by (auto split: sum.splits prod.splits simp: get_prop_error set_prop_error createObject_error)

lemma extend_test_error: "extend_test h ob src su name \<noteq> Inl InvalidArguments"
  unfolding extend_test_def
  by (auto split: sum.splits if_splits simp: get_prop_error)

lemma extend_member_error: "extend_member h ob src su name \<noteq> (Inl InvalidArguments, h')"
  unfolding extend_member_def wrap_def
  by (auto split: sum.splits prod.splits bool.splits
           simp: get_prop_error set_prop_error extend_test_error)

lemma extend_loop_error:
  "extend_loop h ob src su names \<noteq> (Inl InvalidArguments, h')"
proof (induction names arbitrary: h)
  case Nil
  then show ?case by simp
next
  case (Cons name names)
  show ?case
    by (auto split: sum.splits prod.splits simp: extend_member_error Cons.IH)
qed

lemma extend_error: "extend h ob src su \<noteq> (Inl InvalidArguments, h')"
  unfolding extend_def
  by (auto split: sum.splits prod.splits simp: extend_loop_error)

lemma create_error:
  assumes "create h args = (Inl InvalidArguments, h')"
  shows "parseArgs h args = Inl InvalidArguments"
proof (cases "parseArgs h args")
  case (Inl e)
  with assms show ?thesis by (simp add: create_def)
next
  case (Inr d)
  with assms have False
    unfolding create_def
    by (auto split: sum.splits prod.splits if_splits
             simp: get_prop_error set_prop_error inherit_error extend_error)
  then show ?thesis ..
qed




subsection \<open>The memberless class\<close>

lemma create_no_arguments:
  "create h [] = (Inr (Obj (length h)), h @ memberless_class (length h))"
  by (simp add: create_def parseArgs_def new_function_def get_prop_def set_prop_def truthy_def
        lookup_unfold memberless_class_def)

lemma create_null: "create h [Null] = (Inr (Obj (length h)), h @ memberless_class (length h))"
  by (simp add: create_def parseArgs_def typeof_def new_function_def get_prop_def set_prop_def truthy_def
        lookup_unfold memberless_class_def)

lemma construct_memberless:
  "construct (Suc (Suc n)) (h @ memberless_class (length h)) (Obj (length h)) args =
     Some (Inr (Obj (length h + 4)),
           h @ memberless_class (length h) @
             [\<lparr>properties = [], proto = Some (Suc (length h)), callable = None\<rparr>])"
proof -
  let ?H = "h @ memberless_class (length h) @
             [\<lparr>properties = [], proto = Some (Suc (length h)), callable = None\<rparr>]"
  have len: "length ?H = length h + 5" by (simp add: memberless_class_def)
  have i: "lookup ?H (length h + 4) ''init'' = Obj (Suc (Suc (length h)))"
  proof -
    have "lookup ?H (length h + 4) ''init'' = lookup ?H (Suc (length h)) ''init''"
      by (rule lookup_proto) (simp_all add: memberless_class_def nth_append)
    also have "\<dots> = Obj (Suc (Suc (length h)))"
      by (rule lookup_own[where e = True]) (simp_all add: memberless_class_def nth_append)
    finally show ?thesis .
  qed
  have f: "callable_of ?H (Obj (length h)) = Some ClassCtor"
    by (simp add: callable_of_def memberless_class_def nth_append)
  have g: "callable_of ?H (Obj (Suc (Suc (length h)))) = Some empty_init"
    by (simp add: callable_of_def memberless_class_def nth_append)
  have p: "get_prop (h @ memberless_class (length h)) (Obj (length h)) ''prototype'' = Inr (Obj (Suc (length h)))"
    by (simp add: get_prop_def memberless_class_def lookup_unfold)
  have fn: "isFn (h @ memberless_class (length h)) (Obj (length h))"
    by (simp add: isFn_def typeof_def callable_of_def memberless_class_def)
  have c: "call (Suc (Suc n)) (Obj (length h)) (Obj (length h + 4)) args ?H = Some (Inr Undefined, ?H)"
    using f g i len by (simp add: get_prop_def isFn_def typeof_def empty_init_def)
  have l4: "length (h @ memberless_class (length h)) = length h + 4"
    by (simp add: memberless_class_def)
  show ?thesis
    unfolding construct_def using fn p c l4 by (simp add: alloc_def)
qed

text \<open>
  C10.  The type test classifies \<^verbatim>\<open>null\<close> as a mapping, the null member set is
  skipped, and \<^verbatim>\<open>create(null)\<close> returns the memberless class, whose only
  enumerable member is the default \<open>init\<close> and which constructs instances.  No
  single argument whose type tag is \<^verbatim>\<open>object\<close>, an array for example, raises
  \<open>InvalidArguments\<close>.
\<close>

theorem create_accepts_null:
  "typeof h Null = ''object'' \<and>
   parseArgs h [Null] = Inr \<lparr>parent = Undefined, props = Null, staticProps = Undefined\<rparr> \<and>
   create h [Null] = (Inr (Obj (length h)), h @ memberless_class (length h)) \<and>
   own_enumerable_keys (h @ memberless_class (length h)) (Obj (Suc (length h))) = [''init''] \<and>
   construct (Suc (Suc n)) (h @ memberless_class (length h)) (Obj (length h)) args =
     Some (Inr (Obj (length h + 4)),
           h @ memberless_class (length h) @
             [\<lparr>properties = [], proto = Some (Suc (length h)), callable = None\<rparr>]) \<and>
   (typeof h v = ''object'' \<longrightarrow> fst (create h [v]) \<noteq> Inl InvalidArguments)"
proof (intro conjI impI)
  show "typeof h Null = ''object''" by (simp add: typeof_def)
  show "parseArgs h [Null] = Inr \<lparr>parent = Undefined, props = Null, staticProps = Undefined\<rparr>"
    by (simp add: parseArgs_def typeof_def)
  show "create h [Null] = (Inr (Obj (length h)), h @ memberless_class (length h))"
    by (rule create_null)
  show "own_enumerable_keys (h @ memberless_class (length h)) (Obj (Suc (length h))) = [''init'']"
    by (simp add: own_enumerable_keys_def memberless_class_def)
  show "construct (Suc (Suc n)) (h @ memberless_class (length h)) (Obj (length h)) args =
     Some (Inr (Obj (length h + 4)),
           h @ memberless_class (length h) @
             [\<lparr>properties = [], proto = Some (Suc (length h)), callable = None\<rparr>])"
    by (rule construct_memberless)
next
  assume v: "typeof h v = ''object''"
  show "fst (create h [v]) \<noteq> Inl InvalidArguments"
  proof
    assume "fst (create h [v]) = Inl InvalidArguments"
    then have "create h [v] = (Inl InvalidArguments, snd (create h [v]))"
      by (metis prod.collapse)
    then have "parseArgs h [v] = Inl InvalidArguments" by (rule create_error)
    with v show False by (simp add: parseArgs_def split: if_splits)
  qed
qed

text \<open>An array as the single argument.\<close>

theorem create_accepts_null_witness:
  "typeof array_heap (Obj 2) = ''object'' \<and>
   fst (create array_heap [Obj 2]) \<noteq> Inl InvalidArguments"
proof -
  have a: "typeof array_heap (Obj 2) = ''object''" by code_simp
  show ?thesis using a create_accepts_null[where h = array_heap and v = "Obj 2"] by simp
qed

subsection \<open>Linking\<close>

text \<open>
  C8.  Linking a child that was created after the parent and after the parent's
  table leaves every object but the child unchanged, in particular the parent class
  value and the parent's table.  The child receives a new table that delegates to the
  parent's table and names the child as its constructor, and a reference to the
  parent's table in \<^verbatim>\<open>__super__\<close>.
\<close>

theorem inherit_keeps_parent:
  assumes c: "c < length h" and p: "p < c" and t: "t < c"
    and pt: "get_prop h (Obj p) ''prototype'' = Inr (Obj t)"
  shows "\<exists>h'. inherit h (Obj p) (Obj c) = (Inr (Obj c), h') \<and>
           length h' = Suc (length h) \<and>
           (\<forall>r<length h. r \<noteq> c \<longrightarrow> h' ! r = h ! r) \<and>
           h' ! p = h ! p \<and> h' ! t = h ! t \<and>
           get_prop h' (Obj p) ''prototype'' = Inr (Obj t) \<and>
           h' ! length h = \<lparr>properties = [(''constructor'', Obj c, True)], proto = Some t,
                              callable = None\<rparr> \<and>
           get_prop h' (Obj c) ''prototype'' = Inr (Obj (length h)) \<and>
           get_prop h' (Obj c) ''__super__'' = Inr (Obj t) \<and>
           proto (h' ! c) = proto (h ! c) \<and> callable (h' ! c) = callable (h ! c)"
proof -
  let ?T = "\<lparr>properties = [], proto = Some t, callable = None\<rparr>"
  let ?T' = "\<lparr>properties = [(''constructor'', Obj c, True)], proto = Some t, callable = None\<rparr>"
  let ?C1 = "(h ! c)\<lparr>properties := put_own (properties (h ! c)) ''prototype'' (Obj (length h))\<rparr>"
  let ?C2 = "?C1\<lparr>properties := put_own (properties ?C1) ''__super__'' (Obj t)\<rparr>"
  let ?h1 = "h @ [?T]"
  let ?h2 = "?h1[c := ?C1]"
  let ?h3 = "?h2[length h := ?T']"
  let ?h4 = "?h3[c := ?C2]"
  have lk: "lookup h p ''prototype'' = Obj t"
    using pt c p by (simp add: get_prop_def)
  have s1: "createObject h (Obj t) = (Inr (Obj (length h)), ?h1)"
    by (simp add: createObject_def)
  have s2: "set_prop ?h1 (Obj c) ''prototype'' (Obj (length h)) = Inr ?h2"
    using c by (simp add: set_prop_def nth_append)
  have s3: "get_prop ?h2 (Obj c) ''prototype'' = Inr (Obj (length h))"
    using s2 by (rule get_after_set)
  have s4: "set_prop ?h2 (Obj (length h)) ''constructor'' (Obj c) = Inr ?h3"
    using c by (simp add: set_prop_def nth_append)
  have lk3: "lookup ?h3 p ''prototype'' = Obj t"
  proof -
    have "lookup ?h3 p ''prototype'' = lookup h p ''prototype''"
      using c p by (intro lookup_below) (simp_all add: nth_append)
    then show ?thesis using lk by simp
  qed
  have s5: "get_prop ?h3 (Obj p) ''prototype'' = Inr (Obj t)"
    using c p lk3 by (simp add: get_prop_def)
  have s6: "set_prop ?h3 (Obj c) ''__super__'' (Obj t) = Inr ?h4"
    using c by (simp add: set_prop_def nth_append)
  have run: "inherit h (Obj p) (Obj c) = (Inr (Obj c), ?h4)"
    unfolding inherit_def using pt s1 s2 s3 s4 s5 s6 by simp
  have lk4: "lookup ?h4 p ''prototype'' = Obj t"
  proof -
    have "lookup ?h4 p ''prototype'' = lookup h p ''prototype''"
      using c p by (intro lookup_below) (simp_all add: nth_append)
    then show ?thesis using lk by simp
  qed
  have g1: "get_prop ?h4 (Obj p) ''prototype'' = Inr (Obj t)"
    using c p lk4 by (simp add: get_prop_def)
  have g2: "get_prop ?h4 (Obj c) ''__super__'' = Inr (Obj t)"
    using s6 by (rule get_after_set)
  have g3: "get_prop ?h4 (Obj c) ''prototype'' = Inr (Obj (length h))"
    using c by (simp add: get_prop_def lookup_unfold nth_append map_of_put_own)
  have fr: "\<forall>r<length h. r \<noteq> c \<longrightarrow> ?h4 ! r = h ! r"
    by (simp add: nth_append)
  have "?h4 ! p = h ! p" "?h4 ! t = h ! t" "?h4 ! length h = ?T'"
       "proto (?h4 ! c) = proto (h ! c)" "callable (?h4 ! c) = callable (h ! c)"
       "length ?h4 = Suc (length h)"
    using c p t by (simp_all add: nth_append)
  with run fr g1 g2 g3 show ?thesis by blast
qed

text \<open>Linking the fresh constructor of \<open>linking_heap\<close> to the root class.\<close>

theorem inherit_keeps_parent_witness:
  "6 < length linking_heap \<and> (2::nat) < 6 \<and> (3::nat) < 6 \<and>
   get_prop linking_heap (Obj 2) ''prototype'' = Inr (Obj 3) \<and>
   (\<exists>h'. inherit linking_heap (Obj 2) (Obj 6) = (Inr (Obj 6), h') \<and>
      h' ! 2 = linking_heap ! 2 \<and> h' ! 3 = linking_heap ! 3 \<and>
      get_prop h' (Obj 6) ''__super__'' = Inr (Obj 3))"
proof -
  have a: "6 < length linking_heap" by code_simp
  have b: "get_prop linking_heap (Obj 2) ''prototype'' = Inr (Obj 3)" by code_simp
  have "\<exists>h'. inherit linking_heap (Obj 2) (Obj 6) = (Inr (Obj 6), h') \<and>
      h' ! 2 = linking_heap ! 2 \<and> h' ! 3 = linking_heap ! 3 \<and>
      get_prop h' (Obj 6) ''__super__'' = Inr (Obj 3)"
    using inherit_keeps_parent[OF a _ _ b] by fastforce
  with a b show ?thesis by simp
qed

subsection \<open>Installing members\<close>
























subsection \<open>Static members\<close>












text \<open>
  A static member under a read-only name of functions is not installed: the
  assignment on the class value throws, and \<^verbatim>\<open>create\<close> with it.
\<close>

lemma static_name_is_rejected:
  "typeof named_statics_heap (Obj 5) = ''function'' \<and>
   typeof named_statics_heap (Obj 11) = ''object'' \<and>
   typeof named_statics_heap (Obj 12) = ''object'' \<and>
   own_enumerable_keys named_statics_heap (Obj 12) = [''name''] \<and>
   fst (create named_statics_heap [Obj 5, Obj 11]) = Inr (Obj 13) \<and>
   fst (create named_statics_heap [Obj 5, Obj 11, Obj 12]) = Inl NativeTypeError"
  by code_simp

subsection \<open>A wrapper around a callable that does not use the super slot\<close>

lemma same_but_super_refl: "same_but_super h h"
  by (simp add: same_but_super_def)




















subsection \<open>Initializers\<close>

















end
